theory Spec2Isabelle
  imports Complex_Main
begin

section \<open>The environment of \<^verbatim>\<open>src/net/net.cc\<close>\<close>

text \<open>
  The transfer code of mcvm runs against three collaborators that are not part of the
  repository: the C file streams (\<^verbatim>\<open>fopen\<close>, \<^verbatim>\<open>fwrite\<close>, \<^verbatim>\<open>fclose\<close>), the
  console macros of \<^verbatim>\<open>print.hh\<close> and libcurl. They are kept in one record, the world,
  which every operation takes and returns.

  \<^item> \<open>files\<close> is the file system, a map from paths to contents. It holds what is on
    the disk once the streams are flushed: a byte that a stream has taken into its buffer
    without room for it on the disk never gets there.
  \<^item> \<open>fopen_errno\<close> says which paths cannot be opened for writing, and the \<^verbatim>\<open>errno\<close>
    the attempt leaves (permissions, a missing directory).
  \<^item> \<open>disk_free\<close> is the number of further bytes the disk has room for.
  \<^item> \<open>bufsiz\<close> is the size of a stream's buffer and \<open>buffered\<close> the number of bytes
    each stream holds in it.
  \<^item> \<open>streams\<close> holds the \<^verbatim>\<open>FILE\<close> objects \<^verbatim>\<open>fopen\<close> has handed out: a stream is
    its index in the list, with its path and whether it is still open.
  \<^item> \<open>closes\<close> logs every call of \<^verbatim>\<open>fclose\<close>, in order, with the stream it was given.
  \<^item> \<open>requests\<close> logs the URL of every exchange libcurl starts.
  \<^item> \<open>out\<close> logs what the console macros print.
\<close>

type_synonym bytes = string
type_synonym path = string
type_synonym stream = nat

datatype out_event = OutRepl string | OutNewline | Err string | Stdout bytes

record world =
  files :: "path \<rightharpoonup> bytes"
  fopen_errno :: "path \<rightharpoonup> nat"
  disk_free :: nat
  bufsiz :: nat
  buffered :: "stream \<Rightarrow> nat"
  streams :: "(path \<times> bool) list"
  closes :: "stream list"
  errno :: nat
  requests :: "string list"
  out :: "out_event list"

text \<open>
  What ends a call other than a return: the exception \<^verbatim>\<open>FileOpenError{path, errno}\<close>,
  a failed \<^verbatim>\<open>assert\<close> (where the build compiles assertions in), and the uses of a
  stream or a buffer that C leaves undefined.
\<close>

datatype error =
    FileOpenError path nat
  | AssertionFailed
  | InvalidStream
  | BufferOverrun
  | InvalidWriteData
  | UnrepresentableCount

subsection \<open>Console macros\<close>

text \<open>
  \<^verbatim>\<open>OUT_REPL\<close>, \<^verbatim>\<open>OUT_NEWLINE\<close> and \<^verbatim>\<open>ERR\<close> are macros of \<^verbatim>\<open>print.hh\<close>; here each
  appends one event to the console log and touches nothing else.
\<close>

definition OUT_REPL :: "string \<Rightarrow> world \<Rightarrow> world" where
  "OUT_REPL s w = w\<lparr>out := out w @ [OutRepl s]\<rparr>"

definition OUT_NEWLINE :: "world \<Rightarrow> world" where
  "OUT_NEWLINE w = w\<lparr>out := out w @ [OutNewline]\<rparr>"

definition ERR :: "string \<Rightarrow> world \<Rightarrow> world" where
  "ERR s w = w\<lparr>out := out w @ [Err s]\<rparr>"

subsection \<open>C file streams\<close>

definition is_open :: "stream \<Rightarrow> world \<Rightarrow> bool" where
  "is_open f w = (f < length (streams w) \<and> snd (streams w ! f))"

text \<open>
  \<^verbatim>\<open>fopen(path, "wb")\<close>: on failure no stream and \<^verbatim>\<open>errno\<close> set; on success the file
  is created or truncated and a new stream returned, its buffer empty.
\<close>

definition fopen_wb :: "path \<Rightarrow> world \<Rightarrow> stream option \<times> world" where
  "fopen_wb p w =
     (case fopen_errno w p of
        Some e \<Rightarrow> (None, w\<lparr>errno := e\<rparr>)
      | None \<Rightarrow>
          (Some (length (streams w)),
           w\<lparr>files := (files w)(p \<mapsto> []),
             buffered := (buffered w)(length (streams w) := 0),
             streams := streams w @ [(p, True)]\<rparr>))"

text \<open>
  \<^verbatim>\<open>fclose\<close>: the call is logged whatever the stream is; C leaves closing a stream a
  second time undefined, and the log is where such a call shows.
\<close>

definition fclose :: "stream \<Rightarrow> world \<Rightarrow> world" where
  "fclose f w =
     w\<lparr>streams :=
         (if f < length (streams w) then (streams w)[f := (fst (streams w ! f), False)]
          else streams w),
       closes := closes w @ [f]\<rparr>"

text \<open>
  \<^verbatim>\<open>fwrite(buffer, size, nmemb, file)\<close> returns the number of whole items written. The
  stream is buffered: a chunk that fits into the buffer is taken whole, whatever room the
  disk has, and a shortage of room then shows only when the stream is flushed. A chunk
  that does not fit is written through, and only then can the count be short. Of the
  chunk, the bytes the disk has room for are the ones that reach the file. A null or
  closed stream and a buffer shorter than \<open>size * nmemb\<close> are undefined in C.
\<close>

definition fwrite :: "bytes \<Rightarrow> nat \<Rightarrow> nat \<Rightarrow> stream option \<Rightarrow> world \<Rightarrow> (error + nat) \<times> world" where
  "fwrite buffer sz nmemb fp w =
     (case fp of
        None \<Rightarrow> (Inl InvalidStream, w)
      | Some f \<Rightarrow>
          if \<not> is_open f w then (Inl InvalidStream, w)
          else if length buffer < sz * nmemb then (Inl BufferOverrun, w)
          else
            (let n = sz * nmemb;
                 k = min n (disk_free w);
                 fits = (buffered w f + n \<le> bufsiz w);
                 taken = (if fits then n else k);
                 p = fst (streams w ! f);
                 old = (case files w p of None \<Rightarrow> [] | Some c \<Rightarrow> c)
             in (Inr (if sz = 0 then 0 else taken div sz),
                 w\<lparr>files := (files w)(p \<mapsto> old @ take k buffer),
                   disk_free := disk_free w - k,
                   buffered := (buffered w)(f := (if fits then buffered w f + n else 0))\<rparr>)))"

section \<open>Sink: \<^verbatim>\<open>CurlResult\<close> and the write callbacks\<close>

text \<open>The member \<^verbatim>\<open>FILE* file\<close> is \<open>file_p\<close> here; \<open>None\<close> is the null pointer.\<close>

record CurlResult =
  file_p :: "stream option"
  str :: bytes

text \<open>Lines 14--17.\<close>

fun write_data_to_file ::
  "bytes \<Rightarrow> nat \<Rightarrow> nat \<Rightarrow> world \<times> CurlResult \<Rightarrow> (error + nat) \<times> world \<times> CurlResult" where
  "write_data_to_file buffer sz nmemb (w, curl_result) =
     (case fwrite buffer sz nmemb (file_p curl_result) w of
        (r, w') \<Rightarrow> (r, w', curl_result))"

text \<open>
  Lines 19--24. The caller hands over \<open>size * nmemb\<close> bytes; appending from a shorter
  buffer would read beyond its end. The product is not wrapped to \<^verbatim>\<open>size_t\<close>: a
  buffer of that many bytes bounds it by the address space.
\<close>

fun write_data_to_str ::
  "bytes \<Rightarrow> nat \<Rightarrow> nat \<Rightarrow> world \<times> CurlResult \<Rightarrow> (error + nat) \<times> world \<times> CurlResult" where
  "write_data_to_str buffer sz nmemb (w, curl_result) =
     (let write_size = sz * nmemb in
      if length buffer < write_size then (Inl BufferOverrun, w, curl_result)
      else (Inr write_size, w, curl_result\<lparr>str := str curl_result @ take write_size buffer\<rparr>))"

text \<open>Lines 26--32: the file first, then the string, whose result is dropped.\<close>

fun write_data_to_file_and_str ::
  "bytes \<Rightarrow> nat \<Rightarrow> nat \<Rightarrow> world \<times> CurlResult \<Rightarrow> (error + nat) \<times> world \<times> CurlResult" where
  "write_data_to_file_and_str buffer sz nmemb (w, curl_result) =
     (case write_data_to_file buffer sz nmemb (w, curl_result) of
        (Inl e, s) \<Rightarrow> (Inl e, s)
      | (Inr written, s1) \<Rightarrow>
          (case write_data_to_str buffer sz nmemb s1 of
             (Inl e, s2) \<Rightarrow> (Inl e, s2)
           | (Inr _, s2) \<Rightarrow> (Inr written, s2)))"

section \<open>libcurl: the easy handle\<close>

text \<open>
  Of a \<^verbatim>\<open>CURL*\<close> the model keeps its identity and the options this code sets.
  \<^verbatim>\<open>curl_easy_init\<close> gives a handle with every option at its default;
  \<^verbatim>\<open>curl_easy_reset\<close> puts every option back to its default (libcurl: it
  ``re-initializes all options previously set on a specified CURL handle to the default
  values''), the error buffer among them.
\<close>

datatype write_callback = WRITE_DATA_TO_FILE | WRITE_DATA_TO_STR | WRITE_DATA_TO_FILE_AND_STR

record CURL =
  easy_id :: nat
  opt_url :: "string option"
  opt_writefunction :: "write_callback option"
  opt_writedata :: bool
  opt_errorbuffer :: bool

definition curl_easy_init :: "nat \<Rightarrow> CURL" where
  "curl_easy_init i =
     \<lparr>easy_id = i, opt_url = None, opt_writefunction = None, opt_writedata = False,
      opt_errorbuffer = False\<rparr>"

definition curl_easy_reset :: "CURL \<Rightarrow> CURL" where
  "curl_easy_reset c =
     c\<lparr>opt_url := None, opt_writefunction := None, opt_writedata := False,
       opt_errorbuffer := False\<rparr>"

text \<open>
  What the network answers to one exchange (the transport of the specification, section 6):
  the chunks of the body in order, the final \<^verbatim>\<open>CURLcode\<close> and the text of the error.
\<close>

record response =
  chunks :: "bytes list"
  result :: nat
  message :: string

definition CURLE_OK :: nat where "CURLE_OK = 0"
definition CURLE_URL_MALFORMAT :: nat where "CURLE_URL_MALFORMAT = 3"
definition CURLE_WRITE_ERROR :: nat where "CURLE_WRITE_ERROR = 23"

text \<open>
  libcurl hands a chunk to the write callback as \<open>(buffer, 1, length)\<close> with the pointer
  given as \<^verbatim>\<open>CURLOPT_WRITEDATA\<close>. With no callback set it writes the chunk to the
  standard output.
\<close>

fun call_write :: "CURL \<Rightarrow> bytes \<Rightarrow> world \<times> CurlResult \<Rightarrow> (error + nat) \<times> world \<times> CurlResult" where
  "call_write c buffer (w, r) =
     (case opt_writefunction c of
        None \<Rightarrow> (Inr (length buffer), w\<lparr>out := out w @ [Stdout buffer]\<rparr>, r)
      | Some cb \<Rightarrow>
          if \<not> opt_writedata c then (Inl InvalidWriteData, w, r)
          else
            (case cb of
               WRITE_DATA_TO_FILE \<Rightarrow> write_data_to_file buffer 1 (length buffer) (w, r)
             | WRITE_DATA_TO_STR \<Rightarrow> write_data_to_str buffer 1 (length buffer) (w, r)
             | WRITE_DATA_TO_FILE_AND_STR \<Rightarrow>
                 write_data_to_file_and_str buffer 1 (length buffer) (w, r)))"

text \<open>
  The chunks are delivered in order; a callback that returns another count than it was
  given ends the exchange (\<open>False\<close>), which libcurl reports as \<^verbatim>\<open>CURLE_WRITE_ERROR\<close>.
\<close>

fun deliver :: "CURL \<Rightarrow> bytes list \<Rightarrow> world \<times> CurlResult \<Rightarrow> (error + bool) \<times> world \<times> CurlResult" where
  "deliver c [] s = (Inr True, s)"
| "deliver c (b # bs) s =
     (case call_write c b s of
        (Inl e, s') \<Rightarrow> (Inl e, s')
      | (Inr n, s') \<Rightarrow> if n \<noteq> length b then (Inr False, s') else deliver c bs s')"

section \<open>Transfer: \<^verbatim>\<open>DownloadHelper\<close>\<close>

text \<open>
  The enumerators \<^verbatim>\<open>FILE\<close>, \<^verbatim>\<open>STR\<close> and \<^verbatim>\<open>FILE_AND_STR\<close>, prefixed because \<^verbatim>\<open>STR\<close>
  is taken by the notation of string literals.
\<close>

datatype DownloadMode = M_FILE | M_STR | M_FILE_AND_STR

text \<open>The style is the value of the enumeration \<^verbatim>\<open>ProgressData::ProgressStyle\<close>.\<close>

record ProgressData =
  is_used :: bool
  style :: nat
  title :: string

text \<open>The array \<^verbatim>\<open>errbuf\<close> is read as the C string it holds.\<close>

record DownloadHelper =
  handle :: CURL
  res :: CurlResult
  errbuf :: string
  progress_data :: ProgressData

text \<open>
  Lines 54--59. The initial values of the members \<^verbatim>\<open>res\<close> and \<^verbatim>\<open>progress_data\<close>
  are written in the class declaration (\<^verbatim>\<open>net.hh\<close>), so the constructor takes them,
  and the address of the new easy handle, as arguments.
\<close>

definition DownloadHelper_ctor :: "nat \<Rightarrow> CurlResult \<Rightarrow> ProgressData \<Rightarrow> DownloadHelper" where
  "DownloadHelper_ctor i res0 progress0 =
     \<lparr>handle = (curl_easy_init i)\<lparr>opt_errorbuffer := True\<rparr>,
      res = res0, errbuf = [], progress_data = progress0\<rparr>"

text \<open>
  \<^verbatim>\<open>curl_easy_perform\<close>. Without a URL libcurl fails before any exchange. Otherwise the
  exchange is logged and the chunks delivered; on failure the message is copied to the
  error buffer if, and only if, one is set on the handle.
\<close>

fun curl_easy_perform ::
  "response \<Rightarrow> world \<times> DownloadHelper \<Rightarrow> (error + nat) \<times> world \<times> DownloadHelper" where
  "curl_easy_perform resp (w, h) =
     (case opt_url (handle h) of
        None \<Rightarrow>
          (Inr CURLE_URL_MALFORMAT, w,
           if opt_errorbuffer (handle h) then h\<lparr>errbuf := ''No URL set''\<rparr> else h)
      | Some u \<Rightarrow>
          (case deliver (handle h) (chunks resp) (w\<lparr>requests := requests w @ [u]\<rparr>, res h) of
             (Inl e, w', r') \<Rightarrow> (Inl e, w', h\<lparr>res := r'\<rparr>)
           | (Inr delivered, w', r') \<Rightarrow>
               (let code = (if delivered then result resp else CURLE_WRITE_ERROR);
                    msg_text = (if delivered then message resp else ''Failure writing output to destination'')
                in (Inr code, w',
                    h\<lparr>res := r',
                      errbuf := (if code \<noteq> CURLE_OK \<and> opt_errorbuffer (handle h) then msg_text
                                 else errbuf h)\<rparr>))))"

text \<open>Lines 79--90: the callback of the mode, and \<^verbatim>\<open>&res\<close> as its data.\<close>

definition mode_callback :: "DownloadMode \<Rightarrow> write_callback" where
  "mode_callback mode =
     (case mode of
        M_FILE \<Rightarrow> WRITE_DATA_TO_FILE
      | M_STR \<Rightarrow> WRITE_DATA_TO_STR
      | M_FILE_AND_STR \<Rightarrow> WRITE_DATA_TO_FILE_AND_STR)"

definition set_write_options :: "DownloadMode \<Rightarrow> DownloadHelper \<Rightarrow> DownloadHelper" where
  "set_write_options mode h =
     h\<lparr>handle := (handle h)
        \<lparr>opt_writefunction := Some (mode_callback mode), opt_writedata := True\<rparr>\<rparr>"

text \<open>
  Lines 61--91. The old stream is closed and its pointer kept; \<^verbatim>\<open>res.file\<close> is
  assigned only when the mode opens a file. The exception carries \<^verbatim>\<open>errno\<close> as it is
  after \<^verbatim>\<open>ERR\<close> has printed.
\<close>

fun set_options ::
  "DownloadMode \<Rightarrow> string \<Rightarrow> path \<Rightarrow> world \<times> DownloadHelper \<Rightarrow>
     (error + unit) \<times> world \<times> DownloadHelper" where
  "set_options mode url path (w, h) =
     (let h1 = h\<lparr>handle := curl_easy_reset (handle h)\<rparr>;
          h2 = h1\<lparr>res := (res h1)\<lparr>str := []\<rparr>\<rparr>;
          w1 = (case file_p (res h2) of Some f \<Rightarrow> fclose f w | None \<Rightarrow> w);
          h3 = h2\<lparr>handle := (handle h2)\<lparr>opt_url := Some url\<rparr>\<rparr>
      in if mode = M_FILE \<or> mode = M_FILE_AND_STR then
           (case fopen_wb path w1 of
              (fo, w2) \<Rightarrow>
                (let h4 = h3\<lparr>res := (res h3)\<lparr>file_p := fo\<rparr>\<rparr> in
                 if fo = None then
                   (let w3 = ERR ''Downloader failed to open file!'' w2
                    in (Inl (FileOpenError path (errno w3)), w3, h4))
                 else (Inr (), w2, set_write_options mode h4)))
         else (Inr (), w1, set_write_options mode h3))"

text \<open>Lines 93--111.\<close>

fun perform :: "response \<Rightarrow> world \<times> DownloadHelper \<Rightarrow> (error + bool) \<times> world \<times> DownloadHelper" where
  "perform resp s =
     (case curl_easy_perform resp s of
        (Inl e, s') \<Rightarrow> (Inl e, s')
      | (Inr success, w, h) \<Rightarrow>
          (let w1 = (case file_p (res h) of Some f \<Rightarrow> fclose f w | None \<Rightarrow> w);
               h1 = h\<lparr>res := (res h)\<lparr>file_p := None\<rparr>\<rparr>;
               w2 = (if is_used (progress_data h1) then OUT_NEWLINE w1 else w1)
           in if success \<noteq> CURLE_OK then (Inr False, ERR (errbuf h1) w2, h1)
              else (Inr True, w2, h1)))"

text \<open>Lines 113--116.\<close>

definition sha1_checksum :: "string \<Rightarrow> DownloadHelper \<Rightarrow> bool" where
  "sha1_checksum checksum h = True"

text \<open>Lines 118--125: every statement of the body is commented out.\<close>

definition add_progress_meter :: "nat \<Rightarrow> string \<Rightarrow> DownloadHelper \<Rightarrow> DownloadHelper" where
  "add_progress_meter style' title' h = h"

definition get_str :: "DownloadHelper \<Rightarrow> bytes" where
  "get_str h = str (res h)"

definition get_err :: "DownloadHelper \<Rightarrow> string" where
  "get_err h = errbuf h"

text \<open>Lines 135--140: the destructor; what is left of the object is the world.\<close>

fun DownloadHelper_dtor :: "world \<times> DownloadHelper \<Rightarrow> world" where
  "DownloadHelper_dtor (w, h) =
     (case file_p (res h) of Some f \<Rightarrow> fclose f w | None \<Rightarrow> w)"

section \<open>Progress rendering\<close>

text \<open>
  Lines 34--52. The \<^verbatim>\<open>double\<close> arguments are rationals here: the quotient and the
  product are then exact, as they are in the machine arithmetic whenever the true
  results are representable (a ratio of one half and its product with ten are).
  \<^verbatim>\<open>round\<close> rounds halves away from zero, and the conversion of its result to
  \<^verbatim>\<open>unsigned int\<close> is defined only for a value of that type.
\<close>

definition intervals :: nat where
  "intervals = 10"

definition CURL_PROGRESSFUNC_CONTINUE :: int where
  "CURL_PROGRESSFUNC_CONTINUE = 268435457"

definition c_round :: "rat \<Rightarrow> int" where
  "c_round x = (if 0 \<le> x then \<lfloor>x + 1 / 2\<rfloor> else - \<lfloor>- x + 1 / 2\<rfloor>)"

definition to_unsigned_int :: "int \<Rightarrow> nat option" where
  "to_unsigned_int v = (if 0 \<le> v \<and> v < 2 ^ 32 then Some (nat v) else None)"

function bar_loop :: "nat \<Rightarrow> nat \<Rightarrow> string \<Rightarrow> string" where
  "bar_loop i count bar =
     (if i < intervals then
        bar_loop (i + 1) count (bar @ [if i < count then CHR ''.'' else CHR '' ''])
      else bar)"
  by pat_completeness auto
termination
  by (relation "measure (\<lambda>(i, count, bar). intervals - i)") auto

definition progress_callback ::
  "ProgressData \<Rightarrow> rat \<Rightarrow> rat \<Rightarrow> rat \<Rightarrow> rat \<Rightarrow> world \<Rightarrow> (error + int) \<times> world" where
  "progress_callback data dltotal dlnow ultotal ulnow w =
     (if dltotal \<noteq> 0 \<and> dlnow \<noteq> 0 then
        (case to_unsigned_int (c_round (dlnow / dltotal * of_nat intervals)) of
           None \<Rightarrow> (Inl UnrepresentableCount, w)
         | Some count \<Rightarrow>
             (Inr CURL_PROGRESSFUNC_CONTINUE,
              OUT_REPL (title data @ ''['' @ bar_loop 0 count [] @ '']'') w))
      else (Inr CURL_PROGRESSFUNC_CONTINUE, w))"

section \<open>Cached fetch\<close>

text \<open>
  Modelled from the spec: \<^verbatim>\<open>file_exists\<close> and \<^verbatim>\<open>read_file\<close> are declared in
  \<^verbatim>\<open>io/files.hh\<close>, which is not among the sources. The specification (section 4.4) has
  the first say whether the path ``already exists on the local filesystem'' and the
  second ``read and return the file's full contents''.
\<close>

definition file_exists :: "path \<Rightarrow> world \<Rightarrow> bool" where
  "file_exists p w = (files w p \<noteq> None)"

definition read_file :: "path \<Rightarrow> world \<Rightarrow> bytes" where
  "read_file p w = (case files w p of None \<Rightarrow> [] | Some c \<Rightarrow> c)"

text \<open>
  Lines 204--224. The response is what the network would answer if asked. The value
  of \<^verbatim>\<open>perform\<close> is dropped, an exception of \<^verbatim>\<open>set_options\<close> passes through.
\<close>

fun download_cached_file ::
  "string \<Rightarrow> path \<Rightarrow> bool \<Rightarrow> response \<Rightarrow> world \<times> DownloadHelper \<Rightarrow>
     (error + bytes) \<times> world \<times> DownloadHelper" where
  "download_cached_file url path download_str resp (w, helper) =
     (if file_exists path w then
        (if download_str then (Inr (read_file path w), w, helper)
         else (Inr [], w, helper))
      else
        (let mode = (if download_str then M_FILE_AND_STR else M_FILE) in
         case set_options mode url path (w, helper) of
           (Inl e, s1) \<Rightarrow> (Inl e, s1)
         | (Inr _, s1) \<Rightarrow>
             (case perform resp s1 of
                (Inl e, s2) \<Rightarrow> (Inl e, s2)
              | (Inr _, w2, h2) \<Rightarrow> (Inr (get_str h2), w2, h2))))"

section \<open>Transfer set: \<^verbatim>\<open>MultiDownloadHelper\<close>\<close>

text \<open>
  The map \<^verbatim>\<open>helpers\<close> from easy handles to helpers is a list of pairs with distinct
  keys; \<open>registered\<close> is what libcurl's multi handle holds. A helper in the map is the
  value of the shared object: the code of \<^verbatim>\<open>perform_blocking\<close> never reads or writes
  it, and what libcurl hands to the write callbacks meanwhile is not followed here.
\<close>

record MultiDownloadHelper =
  helpers :: "(nat \<times> DownloadHelper) list"
  registered :: "nat list"
  msgs_in_queue :: int

definition contains :: "nat \<Rightarrow> (nat \<times> 'a) list \<Rightarrow> bool" where
  "contains k m = (k \<in> set (map fst m))"

text \<open>\<^verbatim>\<open>std::map::insert\<close> keeps the entry of a key that is already there.\<close>

definition map_insert :: "nat \<Rightarrow> 'a \<Rightarrow> (nat \<times> 'a) list \<Rightarrow> (nat \<times> 'a) list" where
  "map_insert k v m = (if contains k m then m else m @ [(k, v)])"

definition erase :: "nat \<Rightarrow> (nat \<times> 'a) list \<Rightarrow> (nat \<times> 'a) list" where
  "erase k m = filter (\<lambda>kv. fst kv \<noteq> k) m"

definition curl_multi_add_handle :: "nat \<Rightarrow> nat list \<Rightarrow> nat list" where
  "curl_multi_add_handle e reg = (if e \<in> set reg then reg else reg @ [e])"

definition curl_multi_remove_handle :: "nat \<Rightarrow> nat list \<Rightarrow> nat list" where
  "curl_multi_remove_handle e reg = removeAll e reg"

text \<open>
  Lines 142--144; the initial value of \<^verbatim>\<open>msgs_in_queue\<close> is written in the class
  declaration, so it is an argument.
\<close>

definition MultiDownloadHelper_ctor :: "int \<Rightarrow> MultiDownloadHelper" where
  "MultiDownloadHelper_ctor msgs0 = \<lparr>helpers = [], registered = [], msgs_in_queue = msgs0\<rparr>"

text \<open>Lines 146--149.\<close>

definition add_helper :: "DownloadHelper \<Rightarrow> MultiDownloadHelper \<Rightarrow> MultiDownloadHelper" where
  "add_helper helper m =
     m\<lparr>helpers := map_insert (easy_id (handle helper)) helper (helpers m),
       registered := curl_multi_add_handle (easy_id (handle helper)) (registered m)\<rparr>"

text \<open>
  What libcurl answers during one pass of the outer loop: the code of
  \<^verbatim>\<open>curl_multi_perform\<close> and the number of running handles it stores, the code of
  \<^verbatim>\<open>curl_multi_poll\<close> (a \<^verbatim>\<open>CURLMcode\<close> is zero for success), and the messages \<^verbatim>\<open>curl_multi_info_read\<close> returns before
  it returns null. A message names its kind, its easy handle and the result of the
  transfer.
\<close>

datatype CURLMSG = CURLMSG_NONE | CURLMSG_DONE

record CURLMsg =
  msg :: CURLMSG
  easy_handle :: nat
  transfer_result :: nat

record round =
  perform_code :: int
  running_handles :: int
  poll_code :: int
  messages :: "CURLMsg list"

text \<open>
  \<^verbatim>\<open>assert\<close> ends the program when its condition is false, unless the build defines
  \<^verbatim>\<open>NDEBUG\<close>, which removes it. The sources do not say how the program is built, so
  the functions that assert take the flag as their first argument.
\<close>

definition assert_fails :: "bool \<Rightarrow> bool \<Rightarrow> bool" where
  "assert_fails ndebug cond = (\<not> ndebug \<and> \<not> cond)"

text \<open>Lines 161--171, the inner loop: it ends at the null message, or at the assertion.\<close>

fun drain ::
  "bool \<Rightarrow> CURLMsg list \<Rightarrow> MultiDownloadHelper \<Rightarrow> (error + unit) \<times> MultiDownloadHelper" where
  "drain ndebug [] m = (Inr (), m)"
| "drain ndebug (x # q) m =
     (if msg x = CURLMSG_DONE then
        (if assert_fails ndebug (contains (easy_handle x) (helpers m)) then (Inl AssertionFailed, m)
         else drain ndebug q
           (m\<lparr>registered := curl_multi_remove_handle (easy_handle x) (registered m),
              helpers := erase (easy_handle x) (helpers m)\<rparr>))
      else drain ndebug q m)"

text \<open>
  Lines 153--172, the outer loop. Each pass takes one round of answers; with no round
  left and handles still running the loop has not ended, which is \<open>None\<close>.
\<close>

fun poll_loop ::
  "bool \<Rightarrow> round list \<Rightarrow> MultiDownloadHelper \<Rightarrow>
     ((error + unit) \<times> MultiDownloadHelper) option" where
  "poll_loop ndebug rs m =
     (if msgs_in_queue m = 0 then Some (Inr (), m)
      else
        (case rs of
           [] \<Rightarrow> None
         | r # rs' \<Rightarrow>
             (let m1 = m\<lparr>msgs_in_queue := running_handles r\<rparr>;
                  code = (if msgs_in_queue m1 \<noteq> 0 then poll_code r else perform_code r)
              in if code \<noteq> 0 then Some (Inr (), m1)
                 else
                   (case drain ndebug (messages r) m1 of
                      (Inl e, m2) \<Rightarrow> Some (Inl e, m2)
                    | (Inr _, m2) \<Rightarrow> poll_loop ndebug rs' m2))))"

text \<open>Lines 151--180.\<close>

definition perform_blocking ::
  "bool \<Rightarrow> round list \<Rightarrow> MultiDownloadHelper \<Rightarrow>
     ((error + bool) \<times> MultiDownloadHelper) option" where
  "perform_blocking ndebug rs m =
     (case poll_loop ndebug rs m of
        None \<Rightarrow> None
      | Some (Inl e, m1) \<Rightarrow> Some (Inl e, m1)
      | Some (Inr _, m1) \<Rightarrow>
          if assert_fails ndebug (helpers m1 = []) then Some (Inl AssertionFailed, m1)
          else Some (Inr True, m1\<lparr>msgs_in_queue := 1\<rparr>))"

text \<open>Lines 195--197.\<close>

definition get_helper_count :: "MultiDownloadHelper \<Rightarrow> nat" where
  "get_helper_count m = length (helpers m)"

section \<open>Example states\<close>

text \<open>
  A small world: one cached file, one directory that does not exist (\<^verbatim>\<open>ENOENT\<close> is 2),
  room for 64 bytes, stream buffers of 4096 bytes. A helper as the constructor leaves it, with no stream, an empty
  string and no progress meter in use, and one whose meter flag starts set.
\<close>

definition example_world :: world where
  "example_world =
     \<lparr>files = [''/cache/index.json'' \<mapsto> ''{}''],
      fopen_errno = [''/missing/dir/file'' \<mapsto> 2],
      disk_free = 64, bufsiz = 4096, buffered = (\<lambda>f. 0), streams = [], closes = [],
      errno = 0, requests = [], out = []\<rparr>"

definition idle_helper :: DownloadHelper where
  "idle_helper =
     DownloadHelper_ctor 1 \<lparr>file_p = None, str = []\<rparr> \<lparr>is_used = False, style = 0, title = []\<rparr>"

definition metered_helper :: DownloadHelper where
  "metered_helper =
     DownloadHelper_ctor 1 \<lparr>file_p = None, str = []\<rparr> \<lparr>is_used = True, style = 0, title = []\<rparr>"

definition ok_response :: response where
  "ok_response = \<lparr>chunks = [''abc'', ''de''], result = 0, message = []\<rparr>"

definition failed_response :: response where
  "failed_response = \<lparr>chunks = [], result = 6, message = ''Could not resolve host''\<rparr>"

text \<open>The world and the sink after \<^verbatim>\<open>/tmp/a\<close> has been opened for a transfer to file and string.\<close>

definition open_world :: world where
  "open_world =
     fst (snd (set_options M_FILE_AND_STR ''http://host/a'' ''/tmp/a'' (example_world, idle_helper)))"

definition open_result :: CurlResult where
  "open_result =
     res (snd (snd (set_options M_FILE_AND_STR ''http://host/a'' ''/tmp/a''
       (example_world, idle_helper))))"

text \<open>The idle helper configured for a transfer to the string.\<close>

definition configured :: "world \<times> DownloadHelper" where
  "configured = snd (set_options M_STR ''http://host/a'' [] (example_world, idle_helper))"

text \<open>
  A round in which \<^verbatim>\<open>curl_multi_poll\<close> fails; a set with two helpers registered, and
  the rounds in which both complete, one of them with a failed transfer.
\<close>

definition error_round :: round where
  "error_round = \<lparr>perform_code = 0, running_handles = 1, poll_code = 12, messages = []\<rparr>"

definition two_helpers :: MultiDownloadHelper where
  "two_helpers =
     add_helper (DownloadHelper_ctor 2 \<lparr>file_p = None, str = []\<rparr> \<lparr>is_used = False, style = 0, title = []\<rparr>)
       (add_helper idle_helper (MultiDownloadHelper_ctor 1))"

definition drain_rounds :: "round list" where
  "drain_rounds =
     [\<lparr>perform_code = 0, running_handles = 2, poll_code = 0, messages = []\<rparr>,
      \<lparr>perform_code = 0, running_handles = 1, poll_code = 0,
        messages = [\<lparr>msg = CURLMSG_DONE, easy_handle = 2, transfer_result = 6\<rparr>]\<rparr>,
      \<lparr>perform_code = 0, running_handles = 0, poll_code = 0,
        messages = [\<lparr>msg = CURLMSG_DONE, easy_handle = 1, transfer_result = 0\<rparr>]\<rparr>]"

text \<open>The same rounds with the result of every transfer replaced.\<close>

definition with_results :: "(nat \<Rightarrow> nat) \<Rightarrow> round \<Rightarrow> round" where
  "with_results g r = r\<lparr>messages := map (\<lambda>x. x\<lparr>transfer_result := g (transfer_result x)\<rparr>) (messages r)\<rparr>"

section \<open>Properties of the write path\<close>

declare set_options.simps [simp del]
declare perform.simps [simp del]
declare curl_easy_perform.simps [simp del]
declare download_cached_file.simps [simp del]
declare bar_loop.simps [simp del]
declare poll_loop.simps [simp del]

text \<open>The definitions a concrete run unfolds.\<close>

lemmas run_defs = set_options.simps perform.simps curl_easy_perform.simps example_world_def
      idle_helper_def metered_helper_def ok_response_def failed_response_def DownloadHelper_ctor_def
      curl_easy_init_def curl_easy_reset_def fwrite_def is_open_def
      set_write_options_def mode_callback_def Let_def get_str_def get_err_def CURLE_OK_def
      CURLE_WRITE_ERROR_def fopen_wb_def fclose_def
      OUT_NEWLINE_def ERR_def add_progress_meter_def

text \<open>A write to an open stream with room on the disk: the whole chunk is taken and placed.\<close>

lemma fwrite_open:
  assumes "is_open f w" "sz * nmemb \<le> length buffer" "sz * nmemb \<le> disk_free w"
  shows "fwrite buffer sz nmemb (Some f) w =
     (Inr (if sz = 0 then 0 else nmemb),
      w\<lparr>files := (files w)(fst (streams w ! f) \<mapsto>
              (case files w (fst (streams w ! f)) of None \<Rightarrow> [] | Some c \<Rightarrow> c)
                @ take (sz * nmemb) buffer),
        disk_free := disk_free w - sz * nmemb,
        buffered := (buffered w)
          (f := if buffered w f + sz * nmemb \<le> bufsiz w then buffered w f + sz * nmemb else 0)\<rparr>)"
  using assms by (simp add: fwrite_def Let_def min_def)

lemma call_write_file_full:
  assumes "opt_writefunction c = Some cb" "cb \<noteq> WRITE_DATA_TO_STR" "opt_writedata c"
    and "file_p r = Some f" "is_open f w" "files w (fst (streams w ! f)) = Some old"
    and "length b \<le> disk_free w"
  shows "\<exists>B. call_write c b (w, r) =
     (Inr (length b),
      w\<lparr>files := (files w)(fst (streams w ! f) \<mapsto> old @ b),
        disk_free := disk_free w - length b,
        buffered := B\<rparr>,
      if cb = WRITE_DATA_TO_FILE_AND_STR then r\<lparr>str := str r @ b\<rparr> else r)"
proof -
  let ?B = "(buffered w)
          (f := if buffered w f + length b \<le> bufsiz w then buffered w f + length b else 0)"
  have fw: "fwrite b (Suc 0) (length b) (Some f) w =
     (Inr (length b),
      w\<lparr>files := (files w)(fst (streams w ! f) \<mapsto> old @ b),
        disk_free := disk_free w - length b,
        buffered := ?B\<rparr>)"
    using fwrite_open [of f w "Suc 0" "length b" b] assms(5,6,7) by simp
  have "call_write c b (w, r) =
     (Inr (length b),
      w\<lparr>files := (files w)(fst (streams w ! f) \<mapsto> old @ b),
        disk_free := disk_free w - length b,
        buffered := ?B\<rparr>,
      if cb = WRITE_DATA_TO_FILE_AND_STR then r\<lparr>str := str r @ b\<rparr> else r)"
    using assms(1,2,3,4) by (cases cb) (simp_all add: fw Let_def)
  then show ?thesis by blast
qed

text \<open>With room on the disk every chunk reaches the file, and the string in the mode that has one.\<close>

lemma deliver_file_full:
  assumes "opt_writefunction c = Some cb" "cb \<noteq> WRITE_DATA_TO_STR" "opt_writedata c"
    and "file_p r = Some f" "is_open f w" "files w (fst (streams w ! f)) = Some old"
    and "length (concat bs) \<le> disk_free w"
  shows "\<exists>B. deliver c bs (w, r) =
     (Inr True,
      w\<lparr>files := (files w)(fst (streams w ! f) \<mapsto> old @ concat bs),
        disk_free := disk_free w - length (concat bs),
        buffered := B\<rparr>,
      if cb = WRITE_DATA_TO_FILE_AND_STR then r\<lparr>str := str r @ concat bs\<rparr> else r)"
  using assms
proof (induction bs arbitrary: w r old)
  case Nil
  have "(files w)(fst (streams w ! f) \<mapsto> old) = files w"
    using Nil.prems(6) by (simp add: fun_upd_idem)
  then have "deliver c [] (w, r) =
     (Inr True,
      w\<lparr>files := (files w)(fst (streams w ! f) \<mapsto> old @ concat []),
        disk_free := disk_free w - length (concat ([] :: bytes list)),
        buffered := buffered w\<rparr>,
      if cb = WRITE_DATA_TO_FILE_AND_STR then r\<lparr>str := str r @ concat []\<rparr> else r)"
    by simp
  then show ?case by blast
next
  case (Cons b bs)
  let ?r = "if cb = WRITE_DATA_TO_FILE_AND_STR then r\<lparr>str := str r @ b\<rparr> else r"
  have len: "length b \<le> disk_free w" using Cons.prems(7) by simp
  obtain B where cw: "call_write c b (w, r) =
     (Inr (length b),
      w\<lparr>files := (files w)(fst (streams w ! f) \<mapsto> old @ b),
        disk_free := disk_free w - length b, buffered := B\<rparr>, ?r)"
    using call_write_file_full [OF Cons.prems(1,2,3,4,5,6) len] by blast
  let ?w = "w\<lparr>files := (files w)(fst (streams w ! f) \<mapsto> old @ b),
        disk_free := disk_free w - length b, buffered := B\<rparr>"
  have o: "is_open f ?w" using Cons.prems(5) by (simp add: is_open_def)
  have fp: "file_p ?r = Some f" using Cons.prems(4) by simp
  have fl: "files ?w (fst (streams ?w ! f)) = Some (old @ b)" by simp
  have d: "length (concat bs) \<le> disk_free ?w" using Cons.prems(7) by simp
  have step: "deliver c (b # bs) (w, r) = deliver c bs (?w, ?r)"
    by (simp del: call_write.simps add: cw)
  obtain B' where ih: "deliver c bs (?w, ?r) =
     (Inr True,
      ?w\<lparr>files := (files ?w)(fst (streams ?w ! f) \<mapsto> (old @ b) @ concat bs),
        disk_free := disk_free ?w - length (concat bs), buffered := B'\<rparr>,
      if cb = WRITE_DATA_TO_FILE_AND_STR then ?r\<lparr>str := str ?r @ concat bs\<rparr> else ?r)"
    using Cons.IH [OF Cons.prems(1,2,3) fp o fl d] by blast
  have st: "?w\<lparr>files := (files ?w)(fst (streams ?w ! f) \<mapsto> (old @ b) @ concat bs),
        disk_free := disk_free ?w - length (concat bs), buffered := B'\<rparr> =
      w\<lparr>files := (files w)(fst (streams w ! f) \<mapsto> old @ concat (b # bs)),
        disk_free := disk_free w - length (concat (b # bs)), buffered := B'\<rparr>"
    by (simp add: diff_diff_eq)
  have rr: "(if cb = WRITE_DATA_TO_FILE_AND_STR then ?r\<lparr>str := str ?r @ concat bs\<rparr> else ?r) =
      (if cb = WRITE_DATA_TO_FILE_AND_STR then r\<lparr>str := str r @ concat (b # bs)\<rparr> else r)"
    by simp
  show ?case
    unfolding step ih st rr by blast
qed

text \<open>A successful \<^verbatim>\<open>set_options\<close> in a mode that writes a file, written out.\<close>

lemma set_options_opens:
  assumes "mode \<noteq> M_STR" "fopen_errno w path = None"
    and "w1 = (case file_p (res h) of Some f \<Rightarrow> fclose f w | None \<Rightarrow> w)"
  shows "set_options mode url path (w, h) =
     (Inr (),
      w1\<lparr>files := (files w1)(path \<mapsto> []),
         buffered := (buffered w1)(length (streams w1) := 0),
         streams := streams w1 @ [(path, True)]\<rparr>,
      set_write_options mode
        (h\<lparr>handle := (curl_easy_reset (handle h))\<lparr>opt_url := Some url\<rparr>,
           res := (res h)\<lparr>str := [], file_p := Some (length (streams w1))\<rparr>\<rparr>))"
  using assms
  by (cases mode; cases "file_p (res h)")
     (simp_all add: set_options.simps fopen_wb_def fclose_def Let_def)

text \<open>What \<^verbatim>\<open>perform\<close> adds to the exchange itself.\<close>

lemma perform_effect:
  assumes "curl_easy_perform resp s = (Inr code, w, h)"
  shows "\<exists>w'. perform resp s = (Inr (code = CURLE_OK), w', h\<lparr>res := (res h)\<lparr>file_p := None\<rparr>\<rparr>) \<and>
      files w' = files w \<and> requests w' = requests w \<and> disk_free w' = disk_free w \<and>
      fopen_errno w' = fopen_errno w \<and>
      closes w' = closes w @ (case file_p (res h) of Some f \<Rightarrow> [f] | None \<Rightarrow> []) \<and>
      out w' = out w @ (if is_used (progress_data h) then [OutNewline] else [])
                     @ (if code \<noteq> CURLE_OK then [Err (errbuf h)] else [])"
  using assms
  by (cases "file_p (res h)")
     (simp_all add: perform.simps Let_def fclose_def OUT_NEWLINE_def ERR_def)

text \<open>
  A transfer into a file that can be opened, with room for the whole body: configure,
  then perform.
\<close>

lemma transfer_to_file:
  assumes m: "mode \<noteq> M_STR" and fo: "fopen_errno w path = None"
    and room: "length (concat (chunks resp)) \<le> disk_free w"
  shows "\<exists>w1 h1 w2 h2.
      set_options mode url path (w, h) = (Inr (), w1, h1) \<and>
      opt_writefunction (handle h1) = Some (mode_callback mode) \<and>
      perform resp (w1, h1) = (Inr (result resp = CURLE_OK), w2, h2) \<and>
      files w2 path = Some (concat (chunks resp)) \<and>
      str (res h2) = (if mode = M_FILE_AND_STR then concat (chunks resp) else []) \<and>
      requests w2 = requests w @ [url] \<and>
      file_p (res h2) = None \<and>
      closes w2 = closes w1 @ [length (streams w1) - 1]"
proof -
  define w0 where "w0 = (case file_p (res h) of Some f \<Rightarrow> fclose f w | None \<Rightarrow> w)"
  define w1 where "w1 = w0\<lparr>files := (files w0)(path \<mapsto> []),
         buffered := (buffered w0)(length (streams w0) := 0),
         streams := streams w0 @ [(path, True)]\<rparr>"
  define h1 where "h1 = set_write_options mode
        (h\<lparr>handle := (curl_easy_reset (handle h))\<lparr>opt_url := Some url\<rparr>,
           res := (res h)\<lparr>str := [], file_p := Some (length (streams w0))\<rparr>\<rparr>)"
  define f where "f = length (streams w0)"
  define wq where "wq = w1\<lparr>requests := requests w1 @ [url]\<rparr>"
  define r3 where "r3 = (if mode_callback mode = WRITE_DATA_TO_FILE_AND_STR
      then (res h1)\<lparr>str := str (res h1) @ concat (chunks resp)\<rparr> else res h1)"
  have so: "set_options mode url path (w, h) = (Inr (), w1, h1)"
    unfolding w1_def h1_def using set_options_opens [OF m fo w0_def] .
  have free: "disk_free w0 = disk_free w" "requests w0 = requests w"
    by (simp_all add: w0_def fclose_def split: option.splits)
  have cb: "opt_writefunction (handle h1) = Some (mode_callback mode)"
    "mode_callback mode \<noteq> WRITE_DATA_TO_STR" "opt_writedata (handle h1)"
    "opt_url (handle h1) = Some url" "\<not> opt_errorbuffer (handle h1)"
    using m
    by (cases mode; simp add: h1_def set_write_options_def mode_callback_def curl_easy_reset_def)+
  have fp: "file_p (res h1) = Some f" "str (res h1) = []"
    by (simp_all add: h1_def set_write_options_def f_def)
  have op: "is_open f wq" "fst (streams wq ! f) = path"
    by (simp_all add: wq_def w1_def f_def is_open_def)
  have fl: "files wq (fst (streams wq ! f)) = Some []"
    by (simp add: op(2)) (simp add: wq_def w1_def)
  have rm: "length (concat (chunks resp)) \<le> disk_free wq"
    using room by (simp add: wq_def w1_def free)
  obtain B where d: "deliver (handle h1) (chunks resp) (wq, res h1) =
      (Inr True,
       wq\<lparr>files := (files wq)(fst (streams wq ! f) \<mapsto> [] @ concat (chunks resp)),
         disk_free := disk_free wq - length (concat (chunks resp)), buffered := B\<rparr>, r3)"
    unfolding r3_def using deliver_file_full [OF cb(1,2,3) fp(1) op(1) fl rm] by blast
  define w3 where "w3 = wq\<lparr>files := (files wq)(fst (streams wq ! f) \<mapsto> [] @ concat (chunks resp)),
        disk_free := disk_free wq - length (concat (chunks resp)), buffered := B\<rparr>"
  have cp: "curl_easy_perform resp (w1, h1) = (Inr (result resp), w3, h1\<lparr>res := r3\<rparr>)"
    by (simp add: curl_easy_perform.simps cb wq_def [symmetric] d w3_def)
  define h2 where "h2 = h1\<lparr>res := r3\<lparr>file_p := None\<rparr>\<rparr>"
  have r3f: "file_p r3 = Some f" by (simp add: r3_def fp)
  have r3s: "str r3 = (if mode = M_FILE_AND_STR then concat (chunks resp) else [])"
    using m by (cases mode) (simp_all add: r3_def fp mode_callback_def)
  obtain w2 where p: "perform resp (w1, h1) = (Inr (result resp = CURLE_OK), w2, h2)"
      and w2: "files w2 = files w3" "requests w2 = requests w3" "closes w2 = closes w3 @ [f]"
    using perform_effect [OF cp] by (auto simp: h2_def r3f)
  have c1: "files w2 path = Some (concat (chunks resp))"
    by (simp add: w2 w3_def op(2))
  have c2: "str (res h2) = (if mode = M_FILE_AND_STR then concat (chunks resp) else [])"
    by (simp add: h2_def r3s)
  have c3: "requests w2 = requests w @ [url]"
    by (simp add: w2 w3_def wq_def w1_def free)
  have c4: "file_p (res h2) = None"
    by (simp add: h2_def)
  have c5: "closes w2 = closes w1 @ [length (streams w1) - 1]"
    by (simp add: w2 w3_def wq_def w1_def f_def)
  from so cb(1) p c1 c2 c3 c4 c5 show ?thesis by blast
qed

lemma open_world_eq:
  "open_world =
     example_world\<lparr>files := (files example_world)(''/tmp/a'' \<mapsto> []),
       buffered := (buffered example_world)(0 := 0), streams := [(''/tmp/a'', True)]\<rparr>"
  by (simp add: open_world_def set_options.simps example_world_def idle_helper_def Let_def
      fopen_wb_def DownloadHelper_ctor_def)

lemma open_result_eq: "open_result = \<lparr>file_p = Some 0, str = []\<rparr>"
  by (simp add: open_result_def set_options.simps example_world_def idle_helper_def Let_def fopen_wb_def DownloadHelper_ctor_def set_write_options_def)

text \<open>
  C7. For a chunk handed to \<^verbatim>\<open>write_data_to_file_and_str\<close> with the stream open: the
  value returned is the count of the file write; the state left is the one the string
  write leaves when run after the file write; the string has the whole chunk appended,
  also when the file took less of it (the result of the string write is dropped); and
  when the disk has room, the file has the chunk appended too. Hence a transfer
  configured for file and string, with room for the body, leaves the same bytes, the
  chunks in order, in the file and in the string.
\<close>

theorem write_data_to_file_and_str_both:
  "(file_p r = Some f \<and> is_open f w \<and> length buffer = sz * nmemb \<longrightarrow>
      fst (write_data_to_file_and_str buffer sz nmemb (w, r)) =
        fst (write_data_to_file buffer sz nmemb (w, r)) \<and>
      snd (write_data_to_file_and_str buffer sz nmemb (w, r)) =
        snd (write_data_to_str buffer sz nmemb (snd (write_data_to_file buffer sz nmemb (w, r)))) \<and>
      str (snd (snd (write_data_to_file_and_str buffer sz nmemb (w, r)))) = str r @ buffer \<and>
      (sz * nmemb \<le> disk_free w \<longrightarrow>
         files (fst (snd (write_data_to_file_and_str buffer sz nmemb (w, r)))) (fst (streams w ! f)) =
           Some ((case files w (fst (streams w ! f)) of None \<Rightarrow> [] | Some c \<Rightarrow> c) @ buffer)))
   \<and> (fopen_errno v path = None \<and> length (concat (chunks resp)) \<le> disk_free v \<longrightarrow>
        (\<exists>w1 h1 b w2 h2.
           set_options M_FILE_AND_STR url path (v, h) = (Inr (), w1, h1) \<and>
           opt_writefunction (handle h1) = Some WRITE_DATA_TO_FILE_AND_STR \<and>
           perform resp (w1, h1) = (Inr b, w2, h2) \<and>
           files w2 path = Some (concat (chunks resp)) \<and>
           get_str h2 = concat (chunks resp)))"
proof (intro conjI impI)
  assume a: "file_p r = Some f \<and> is_open f w \<and> length buffer = sz * nmemb"
  then obtain n w' where fw: "fwrite buffer sz nmemb (Some f) w = (Inr n, w')"
    and fl: "files w' (fst (streams w ! f)) =
      Some ((case files w (fst (streams w ! f)) of None \<Rightarrow> [] | Some c \<Rightarrow> c)
              @ take (min (sz * nmemb) (disk_free w)) buffer)"
    by (simp add: fwrite_def Let_def)
  show "fst (write_data_to_file_and_str buffer sz nmemb (w, r)) =
        fst (write_data_to_file buffer sz nmemb (w, r))"
    using a by (simp add: fw Let_def)
  show "snd (write_data_to_file_and_str buffer sz nmemb (w, r)) =
        snd (write_data_to_str buffer sz nmemb (snd (write_data_to_file buffer sz nmemb (w, r))))"
    using a by (simp add: fw Let_def)
  show "str (snd (snd (write_data_to_file_and_str buffer sz nmemb (w, r)))) = str r @ buffer"
    using a by (simp add: fw Let_def)
  show "files (fst (snd (write_data_to_file_and_str buffer sz nmemb (w, r)))) (fst (streams w ! f)) =
           Some ((case files w (fst (streams w ! f)) of None \<Rightarrow> [] | Some c \<Rightarrow> c) @ buffer)"
    if "sz * nmemb \<le> disk_free w"
    using a that by (simp add: fw fl Let_def min_def)
next
  assume b: "fopen_errno v path = None \<and> length (concat (chunks resp)) \<le> disk_free v"
  have m: "M_FILE_AND_STR \<noteq> M_STR" by simp
  from transfer_to_file [OF m conjunct1 [OF b] conjunct2 [OF b], of url h]
  show "\<exists>w1 h1 b w2 h2.
           set_options M_FILE_AND_STR url path (v, h) = (Inr (), w1, h1) \<and>
           opt_writefunction (handle h1) = Some WRITE_DATA_TO_FILE_AND_STR \<and>
           perform resp (w1, h1) = (Inr b, w2, h2) \<and>
           files w2 path = Some (concat (chunks resp)) \<and>
           get_str h2 = concat (chunks resp)"
    by (simp add: get_str_def mode_callback_def) blast
qed

text \<open>A chunk of three bytes with room for it, and a whole transfer of two chunks.\<close>

theorem write_data_to_file_and_str_both_witness:
  "fst (write_data_to_file_and_str ''abc'' 1 3 (open_world, open_result)) = Inr 3 \<and>
   files (fst (snd (write_data_to_file_and_str ''abc'' 1 3 (open_world, open_result)))) ''/tmp/a''
     = Some ''abc'' \<and>
   str (snd (snd (write_data_to_file_and_str ''abc'' 1 3 (open_world, open_result)))) = ''abc'' \<and>
   files (fst (snd (perform ok_response (open_world, snd (snd
       (set_options M_FILE_AND_STR ''http://host/a'' ''/tmp/a'' (example_world, idle_helper)))))))
     ''/tmp/a'' = Some ''abcde'' \<and>
   get_str (snd (snd (perform ok_response (open_world, snd (snd
       (set_options M_FILE_AND_STR ''http://host/a'' ''/tmp/a'' (example_world, idle_helper)))))))
     = ''abcde''"
  using write_data_to_file_and_str_both [where r = open_result and f = 0 and w = open_world
      and buffer = "''abc''" and sz = 1 and nmemb = 3 and v = example_world
      and path = "''/tmp/a''" and resp = ok_response and url = "''http://host/a''"
      and h = idle_helper]
  by (simp add: open_world_eq open_result_eq run_defs)

section \<open>Checksum\<close>

text \<open>
  C10. For every checksum string and every state of the transfer, \<^verbatim>\<open>sha1_checksum\<close>
  returns true: nothing is compared, neither the string nor the received bytes are read.
\<close>

theorem sha1_checksum_always_true:
  "sha1_checksum checksum h = True"
  by (simp add: sha1_checksum_def)

text \<open>
  At a helper that has received \<open>abcde\<close>, and at one that has received nothing, a digest
  of forty zeros passes.
\<close>

theorem sha1_checksum_always_true_witness:
  "get_str (snd (snd (perform ok_response
      (snd (set_options M_STR ''http://host/a'' [] (example_world, idle_helper)))))) = ''abcde''
   \<and> sha1_checksum ''0000000000000000000000000000000000000000''
        (snd (snd (perform ok_response
          (snd (set_options M_STR ''http://host/a'' [] (example_world, idle_helper))))))
   \<and> sha1_checksum ''0000000000000000000000000000000000000000'' idle_helper"
  using sha1_checksum_always_true [of "''0000000000000000000000000000000000000000''"]
  by (simp add: set_options.simps perform.simps curl_easy_perform.simps example_world_def
      idle_helper_def ok_response_def DownloadHelper_ctor_def curl_easy_init_def
      curl_easy_reset_def set_write_options_def mode_callback_def Let_def get_str_def
      CURLE_OK_def)

section \<open>Cached fetch: the file is there\<close>

text \<open>
  C1. If the path exists, \<^verbatim>\<open>download_cached_file\<close> returns the bytes on disk at the
  path when the string is wanted and the empty string when it is not, and it leaves the
  world and the helper as they were: no exchange is started (the log of requests is
  part of the world), whatever the network would have answered.
\<close>

theorem download_cached_file_hit:
  assumes "file_exists path w"
  shows "\<exists>c. files w path = Some c \<and>
     download_cached_file url path download_str resp (w, t) =
       (Inr (if download_str then c else []), w, t)"
  using assms
  by (auto simp: download_cached_file.simps file_exists_def read_file_def)

theorem download_cached_file_hit_witness:
  "file_exists ''/cache/index.json'' example_world \<and>
   download_cached_file ''http://host/index.json'' ''/cache/index.json'' True failed_response
       (example_world, idle_helper) = (Inr ''{}'', example_world, idle_helper) \<and>
   download_cached_file ''http://host/index.json'' ''/cache/index.json'' False failed_response
       (example_world, idle_helper) = (Inr [], example_world, idle_helper) \<and>
   requests example_world = []"
  using download_cached_file_hit [of "''/cache/index.json''" example_world
      "''http://host/index.json''" True failed_response idle_helper]
    download_cached_file_hit [of "''/cache/index.json''" example_world
      "''http://host/index.json''" False failed_response idle_helper]
  by (simp add: file_exists_def example_world_def)

section \<open>Configuration errors\<close>

text \<open>
  C8. In a mode that writes a file, if the path cannot be opened then \<^verbatim>\<open>set_options\<close>
  ends with \<^verbatim>\<open>FileOpenError\<close> carrying the path and the error code of the failed
  open. The call ends there: the message is printed, no write callback is bound, no
  stream is held, and no exchange has been started.
\<close>

theorem set_options_open_failure:
  assumes "mode = M_FILE \<or> mode = M_FILE_AND_STR" and "fopen_errno w path = Some e"
  shows "\<exists>w' h'. set_options mode url path (w, h) = (Inl (FileOpenError path e), w', h') \<and>
     requests w' = requests w \<and> files w' = files w \<and>
     out w' = out w @ [Err ''Downloader failed to open file!''] \<and>
     opt_writefunction (handle h') = None \<and> file_p (res h') = None"
  using assms
  by (cases "file_p (res h)")
     (auto simp: set_options.simps fopen_wb_def fclose_def ERR_def Let_def curl_easy_reset_def)

theorem set_options_open_failure_witness:
  "fopen_errno example_world ''/missing/dir/file'' = Some 2 \<and>
   fst (set_options M_FILE ''http://host/a'' ''/missing/dir/file'' (example_world, idle_helper))
     = Inl (FileOpenError ''/missing/dir/file'' 2) \<and>
   fst (set_options M_FILE_AND_STR ''http://host/a'' ''/missing/dir/file''
          (example_world, idle_helper))
     = Inl (FileOpenError ''/missing/dir/file'' 2)"
  using set_options_open_failure [of M_FILE example_world "''/missing/dir/file''" 2
      "''http://host/a''" idle_helper]
    set_options_open_failure [of M_FILE_AND_STR example_world "''/missing/dir/file''" 2
      "''http://host/a''" idle_helper]
  by (auto simp: example_world_def)

section \<open>Cached fetch: the file is not there\<close>

text \<open>
  C6, as stated. At a path that does not exist and cannot be opened, the call ends with
  \<^verbatim>\<open>FileOpenError\<close>, no exchange is started and the path stays absent. At a path
  that can be opened, on a disk with room for two bytes, the body \<open>abcde\<close> arrives in
  the chunks \<open>abc\<close> and \<open>de\<close>: the stream takes both into its buffer, the call
  returns \<open>abcde\<close>, and the file does not hold the body.
\<close>

theorem download_cached_file_open_failure_counterexample:
  "\<not> file_exists ''/missing/dir/file'' example_world \<and>
   fst (download_cached_file ''http://host/a'' ''/missing/dir/file'' False ok_response
          (example_world, idle_helper)) = Inl (FileOpenError ''/missing/dir/file'' 2) \<and>
   requests (fst (snd (download_cached_file ''http://host/a'' ''/missing/dir/file'' False ok_response
          (example_world, idle_helper)))) = [] \<and>
   files (fst (snd (download_cached_file ''http://host/a'' ''/missing/dir/file'' False ok_response
          (example_world, idle_helper)))) ''/missing/dir/file'' = None \<and>
   \<not> file_exists ''/tmp/a'' (example_world\<lparr>disk_free := 2\<rparr>) \<and>
   fst (download_cached_file ''http://host/a'' ''/tmp/a'' True ok_response
          (example_world\<lparr>disk_free := 2\<rparr>, idle_helper)) = Inr ''abcde'' \<and>
   files (fst (snd (download_cached_file ''http://host/a'' ''/tmp/a'' True ok_response
          (example_world\<lparr>disk_free := 2\<rparr>, idle_helper)))) ''/tmp/a'' \<noteq> Some ''abcde''"
  by (simp add: download_cached_file.simps file_exists_def run_defs)

text \<open>
  C6, amended. If the path does not exist, can be opened for writing, and the disk has
  room for the body, then \<^verbatim>\<open>download_cached_file\<close> configures the helper for file
  and string when the string is wanted and for file when it is not, performs once (one
  request, for the URL given), leaves the received bytes at the path, and returns the
  helper's string: the received bytes when wanted, empty when not. If the path does not
  exist and cannot be opened, the \<^verbatim>\<open>FileOpenError\<close> of \<^verbatim>\<open>set_options\<close> ends the
  call, with the path and the error code of the open: no exchange is started and the
  files are as they were.
\<close>

theorem download_cached_file_miss:
  "(\<not> file_exists path w \<and> fopen_errno w path = None \<and>
    length (concat (chunks resp)) \<le> disk_free w \<longrightarrow>
      (\<exists>w1 t1 b w2 t2.
         set_options (if download_str then M_FILE_AND_STR else M_FILE) url path (w, t)
           = (Inr (), w1, t1) \<and>
         opt_writefunction (handle t1) =
           Some (if download_str then WRITE_DATA_TO_FILE_AND_STR else WRITE_DATA_TO_FILE) \<and>
         perform resp (w1, t1) = (Inr b, w2, t2) \<and>
         download_cached_file url path download_str resp (w, t) = (Inr (get_str t2), w2, t2) \<and>
         get_str t2 = (if download_str then concat (chunks resp) else []) \<and>
         requests w2 = requests w @ [url] \<and>
         files w2 path = Some (concat (chunks resp)))) \<and>
   (\<not> file_exists p v \<and> fopen_errno v p = Some e \<longrightarrow>
      (\<exists>v' u'.
         download_cached_file link p want answer (v, u) = (Inl (FileOpenError p e), v', u') \<and>
         requests v' = requests v \<and> files v' = files v))"
proof (intro conjI impI)
  assume a: "\<not> file_exists path w \<and> fopen_errno w path = None \<and>
    length (concat (chunks resp)) \<le> disk_free w"
  let ?mode = "if download_str then M_FILE_AND_STR else M_FILE"
  have m: "?mode \<noteq> M_STR" by simp
  from a have fo: "fopen_errno w path = None"
    and room: "length (concat (chunks resp)) \<le> disk_free w" by simp_all
  obtain w1 t1 w2 t2 where
    so: "set_options ?mode url path (w, t) = (Inr (), w1, t1)" and
    cb: "opt_writefunction (handle t1) = Some (mode_callback ?mode)" and
    p: "perform resp (w1, t1) = (Inr (result resp = CURLE_OK), w2, t2)" and
    f: "files w2 path = Some (concat (chunks resp))" and
    s: "str (res t2) = (if ?mode = M_FILE_AND_STR then concat (chunks resp) else [])" and
    r: "requests w2 = requests w @ [url]"
    using transfer_to_file [OF m fo room, of url t] by blast
  have d: "download_cached_file url path download_str resp (w, t) = (Inr (get_str t2), w2, t2)"
    using a by (simp add: download_cached_file.simps so p)
  have cb': "opt_writefunction (handle t1) =
        Some (if download_str then WRITE_DATA_TO_FILE_AND_STR else WRITE_DATA_TO_FILE)"
    using cb by (simp add: mode_callback_def)
  have s': "get_str t2 = (if download_str then concat (chunks resp) else [])"
    using s by (simp add: get_str_def)
  from so cb' p d s' r f
  show "\<exists>w1 t1 b w2 t2.
         set_options (if download_str then M_FILE_AND_STR else M_FILE) url path (w, t)
           = (Inr (), w1, t1) \<and>
         opt_writefunction (handle t1) =
           Some (if download_str then WRITE_DATA_TO_FILE_AND_STR else WRITE_DATA_TO_FILE) \<and>
         perform resp (w1, t1) = (Inr b, w2, t2) \<and>
         download_cached_file url path download_str resp (w, t) = (Inr (get_str t2), w2, t2) \<and>
         get_str t2 = (if download_str then concat (chunks resp) else []) \<and>
         requests w2 = requests w @ [url] \<and>
         files w2 path = Some (concat (chunks resp))"
    by blast
next
  assume "\<not> file_exists p v \<and> fopen_errno v p = Some e"
  then show "\<exists>v' u'.
         download_cached_file link p want answer (v, u) = (Inl (FileOpenError p e), v', u') \<and>
         requests v' = requests v \<and> files v' = files v"
    by (cases "file_p (res u)")
       (auto simp: download_cached_file.simps set_options.simps fopen_wb_def fclose_def ERR_def
          Let_def)
qed

theorem download_cached_file_miss_witness:
  "\<not> file_exists ''/tmp/a'' example_world \<and>
   fst (download_cached_file ''http://host/a'' ''/tmp/a'' True ok_response
          (example_world, idle_helper)) = Inr ''abcde'' \<and>
   fst (download_cached_file ''http://host/a'' ''/tmp/a'' False ok_response
          (example_world, idle_helper)) = Inr [] \<and>
   files (fst (snd (download_cached_file ''http://host/a'' ''/tmp/a'' False ok_response
          (example_world, idle_helper)))) ''/tmp/a'' = Some ''abcde'' \<and>
   requests (fst (snd (download_cached_file ''http://host/a'' ''/tmp/a'' False ok_response
          (example_world, idle_helper)))) = [''http://host/a''] \<and>
   \<not> file_exists ''/missing/dir/file'' example_world \<and>
   fst (download_cached_file ''http://host/a'' ''/missing/dir/file'' True ok_response
          (example_world, idle_helper)) = Inl (FileOpenError ''/missing/dir/file'' 2)"
  using download_cached_file_miss [where path = "''/tmp/a''" and w = example_world
      and resp = ok_response and download_str = True and url = "''http://host/a''"
      and t = idle_helper and p = "''/missing/dir/file''" and v = example_world and e = 2
      and link = "''http://host/a''" and want = True and answer = ok_response and u = idle_helper]
    download_cached_file_miss [where path = "''/tmp/a''" and w = example_world
      and resp = ok_response and download_str = False and url = "''http://host/a''"
      and t = idle_helper and p = "''/missing/dir/file''" and v = example_world and e = 2
      and link = "''http://host/a''" and want = True and answer = ok_response and u = idle_helper]
  by (auto simp: file_exists_def example_world_def ok_response_def)

section \<open>The stream of the sink\<close>

text \<open>
  C2. A stream opened for a transfer is to be closed exactly once. The run: the idle
  helper is configured for a file, which opens stream 0; it is configured again for the
  string, which closes stream 0 and keeps the pointer, since \<^verbatim>\<open>res.file\<close> is
  assigned only in the modes that open a file. From there \<^verbatim>\<open>perform\<close>, the
  destructor and a third \<^verbatim>\<open>set_options\<close> each call \<^verbatim>\<open>fclose\<close> on stream 0 a
  second time.
\<close>

theorem set_options_keeps_closed_stream:
  "streams (fst (snd (set_options M_FILE ''http://host/a'' ''/tmp/a'' (example_world, idle_helper))))
     = [(''/tmp/a'', True)] \<and>
   file_p (res (snd (snd (set_options M_FILE ''http://host/a'' ''/tmp/a'' (example_world, idle_helper)))))
     = Some 0 \<and>
   closes (fst (snd (set_options M_STR ''http://host/b'' []
      (snd (set_options M_FILE ''http://host/a'' ''/tmp/a'' (example_world, idle_helper)))))) = [0] \<and>
   file_p (res (snd (snd (set_options M_STR ''http://host/b'' []
      (snd (set_options M_FILE ''http://host/a'' ''/tmp/a'' (example_world, idle_helper)))))))
     = Some 0 \<and>
   closes (fst (snd (perform ok_response (snd (set_options M_STR ''http://host/b'' []
      (snd (set_options M_FILE ''http://host/a'' ''/tmp/a'' (example_world, idle_helper))))))))
     = [0, 0] \<and>
   closes (DownloadHelper_dtor (snd (set_options M_STR ''http://host/b'' []
      (snd (set_options M_FILE ''http://host/a'' ''/tmp/a'' (example_world, idle_helper))))))
     = [0, 0] \<and>
   closes (fst (snd (set_options M_STR ''http://host/c'' [] (snd (set_options M_STR ''http://host/b'' []
      (snd (set_options M_FILE ''http://host/a'' ''/tmp/a'' (example_world, idle_helper))))))))
     = [0, 0]"
  by (simp add: run_defs)

section \<open>The error buffer\<close>

lemma set_options_configured:
  assumes "set_options mode url path (w, h) = (Inr (), w1, h1)"
  shows "opt_url (handle h1) = Some url \<and>
     opt_writefunction (handle h1) = Some (mode_callback mode) \<and>
     opt_writedata (handle h1) \<and> \<not> opt_errorbuffer (handle h1) \<and>
     errbuf h1 = errbuf h \<and> progress_data h1 = progress_data h \<and> str (res h1) = [] \<and>
     (mode \<noteq> M_STR \<longrightarrow> (\<exists>f. file_p (res h1) = Some f \<and> is_open f w1))"
  using assms
  by (cases mode; cases "file_p (res h)"; cases "fopen_errno w path")
     (auto simp: set_options.simps fopen_wb_def fclose_def ERR_def Let_def curl_easy_reset_def
        set_write_options_def is_open_def nth_append)

lemma call_write_configured:
  assumes "opt_writefunction c = Some cb" "opt_writedata c"
    and "cb \<noteq> WRITE_DATA_TO_STR \<longrightarrow> (\<exists>f. file_p r = Some f \<and> is_open f w)"
  shows "\<exists>n w' r'. call_write c b (w, r) = (Inr n, w', r') \<and> file_p r' = file_p r \<and>
     streams w' = streams w \<and> closes w' = closes w \<and> out w' = out w"
  using assms by (cases cb) (auto simp: fwrite_def Let_def)

lemma deliver_configured:
  assumes "opt_writefunction c = Some cb" "opt_writedata c"
    and "cb \<noteq> WRITE_DATA_TO_STR \<longrightarrow> (\<exists>f. file_p r = Some f \<and> is_open f w)"
  shows "\<exists>ok w' r'. deliver c bs (w, r) = (Inr ok, w', r') \<and> file_p r' = file_p r \<and>
     streams w' = streams w \<and> closes w' = closes w \<and> out w' = out w"
  using assms(3)
proof (induction bs arbitrary: w r)
  case Nil
  then show ?case by auto
next
  case (Cons b bs)
  obtain n w1 r1 where cw: "call_write c b (w, r) = (Inr n, w1, r1)"
      and k: "file_p r1 = file_p r" "streams w1 = streams w" "closes w1 = closes w" "out w1 = out w"
    using call_write_configured [OF assms(1,2) Cons.prems, of b] by blast
  have inv: "cb \<noteq> WRITE_DATA_TO_STR \<longrightarrow> (\<exists>f. file_p r1 = Some f \<and> is_open f w1)"
    using Cons.prems k by (simp add: is_open_def)
  from Cons.IH [OF inv] obtain ok w2 r2 where
    d: "deliver c bs (w1, r1) = (Inr ok, w2, r2)" and
    k2: "file_p r2 = file_p r1" "streams w2 = streams w1" "closes w2 = closes w1" "out w2 = out w1"
    by blast
  show ?case
    by (cases "n = length b") (auto simp del: call_write.simps simp add: cw d k k2)
qed

text \<open>
  What holds of \<^verbatim>\<open>perform\<close> after any successful \<^verbatim>\<open>set_options\<close>, whatever the
  network answers: it returns (no exception, nothing undefined), false whenever the
  exchange failed; it calls \<^verbatim>\<open>fclose\<close> on the stream the sink points at and leaves
  the pointer null; and the error buffer is what it was before \<^verbatim>\<open>set_options\<close>.
\<close>

lemma perform_configured:
  assumes "set_options mode url path (w, h) = (Inr (), w1, h1)"
  shows "\<exists>b w2 h2. perform resp (w1, h1) = (Inr b, w2, h2) \<and>
     (result resp \<noteq> CURLE_OK \<longrightarrow> \<not> b) \<and>
     file_p (res h2) = None \<and>
     closes w2 = closes w1 @ (case file_p (res h1) of Some f \<Rightarrow> [f] | None \<Rightarrow> []) \<and>
     errbuf h2 = errbuf h"
proof -
  note c = set_options_configured [OF assms]
  have inv: "mode_callback mode \<noteq> WRITE_DATA_TO_STR \<longrightarrow>
      (\<exists>f. file_p (res h1) = Some f \<and> is_open f (w1\<lparr>requests := requests w1 @ [url]\<rparr>))"
    using c by (cases mode) (simp_all add: mode_callback_def is_open_def)
  obtain ok w' r' where
    d: "deliver (handle h1) (chunks resp) (w1\<lparr>requests := requests w1 @ [url]\<rparr>, res h1) = (Inr ok, w', r')"
    and k: "file_p r' = file_p (res h1)" "closes w' = closes (w1\<lparr>requests := requests w1 @ [url]\<rparr>)"
    using deliver_configured [OF _ _ inv, of "handle h1" "chunks resp"] c by blast
  define code where "code = (if ok then result resp else CURLE_WRITE_ERROR)"
  have cp: "curl_easy_perform resp (w1, h1) = (Inr code, w', h1\<lparr>res := r'\<rparr>)"
    using c by (simp add: curl_easy_perform.simps d code_def Let_def)
  from perform_effect [OF cp] obtain w2 where
    p: "perform resp (w1, h1) =
        (Inr (code = CURLE_OK), w2, h1\<lparr>res := r'\<rparr>\<lparr>res := (res (h1\<lparr>res := r'\<rparr>))\<lparr>file_p := None\<rparr>\<rparr>)"
    and cl: "closes w2 = closes w' @ (case file_p (res (h1\<lparr>res := r'\<rparr>)) of Some f \<Rightarrow> [f] | None \<Rightarrow> [])"
    by blast
  have "result resp \<noteq> CURLE_OK \<longrightarrow> code \<noteq> CURLE_OK"
    by (simp add: code_def CURLE_OK_def CURLE_WRITE_ERROR_def)
  then show ?thesis
    using c cl k by (simp add: p)
qed

text \<open>
  C4. The constructor sets \<^verbatim>\<open>CURLOPT_ERRORBUFFER\<close>; \<^verbatim>\<open>set_options\<close> resets the
  handle and does not set it again. The run: the idle helper is configured and the
  exchange fails with a message. \<^verbatim>\<open>perform\<close> returns false, and the error buffer is
  still empty: \<^verbatim>\<open>get_err\<close> gives the empty string and \<^verbatim>\<open>ERR\<close> prints it.
\<close>

theorem perform_error_buffer_empty:
  "opt_errorbuffer (handle idle_helper) \<and>
   \<not> opt_errorbuffer (handle (snd (snd
       (set_options M_STR ''http://nohost/a'' [] (example_world, idle_helper))))) \<and>
   fst (perform failed_response
          (snd (set_options M_STR ''http://nohost/a'' [] (example_world, idle_helper)))) = Inr False \<and>
   message failed_response = ''Could not resolve host'' \<and>
   get_err (snd (snd (perform failed_response
          (snd (set_options M_STR ''http://nohost/a'' [] (example_world, idle_helper)))))) = [] \<and>
   out (fst (snd (perform failed_response
          (snd (set_options M_STR ''http://nohost/a'' [] (example_world, idle_helper)))))) = [Err []]"
  by (simp add: run_defs)

section \<open>Progress meter\<close>

text \<open>
  C9, as stated. With the flag clear at construction: \<^verbatim>\<open>add_progress_meter\<close> is
  called, the transfer completes, and no newline is printed. With the flag set at
  construction: \<^verbatim>\<open>add_progress_meter\<close> is never called, and the newline is printed.
  Whichever value the class declaration gives the flag, one direction fails.
\<close>

theorem progress_newline_counterexample:
  "out (fst (snd (perform ok_response (snd (set_options M_STR ''http://host/a'' []
      (example_world, add_progress_meter 0 ''index'' idle_helper)))))) = [] \<and>
   out (fst (snd (perform ok_response (snd (set_options M_STR ''http://host/a'' []
      (example_world, metered_helper)))))) = [OutNewline]"
  by (simp add: run_defs)

lemma bar_half: "bar_loop 0 5 [] = ''.....     ''"
  by (simp add: bar_loop.simps intervals_def)

lemma curl_easy_perform_progress:
  "curl_easy_perform resp (v, h) = (x, v1, h1) \<Longrightarrow> progress_data h1 = progress_data h"
  by (auto simp: curl_easy_perform.simps Let_def split: option.splits prod.splits sum.splits if_splits)

text \<open>
  C9, amended. When the callback is called with \<open>dlnow / dltotal\<close> one half, it prints
  the title and a bar of five dots and five blanks. \<^verbatim>\<open>add_progress_meter\<close> leaves
  the helper as it is. After the exchange \<^verbatim>\<open>perform\<close> prints one newline if, and
  only if, the flag \<^verbatim>\<open>is_used\<close> of the helper is set (and then the error buffer, if
  the exchange failed).
\<close>

theorem progress_rendering:
  "(dltotal \<noteq> 0 \<and> dlnow / dltotal = 1 / 2 \<longrightarrow>
      progress_callback data dltotal dlnow ultotal ulnow w =
        (Inr CURL_PROGRESSFUNC_CONTINUE, OUT_REPL (title data @ ''[.....     ]'') w)) \<and>
   add_progress_meter st ti h = h \<and>
   (fst (curl_easy_perform resp (v, h)) = Inr code \<longrightarrow>
      fst (perform resp (v, h)) = Inr (code = CURLE_OK) \<and>
      out (fst (snd (perform resp (v, h)))) =
        out (fst (snd (curl_easy_perform resp (v, h))))
          @ (if is_used (progress_data h) then [OutNewline] else [])
          @ (if code \<noteq> CURLE_OK then [Err (errbuf (snd (snd (curl_easy_perform resp (v, h)))))]
             else []))"
proof (intro conjI impI)
  assume a: "dltotal \<noteq> 0 \<and> dlnow / dltotal = 1 / 2"
  then have n: "dlnow \<noteq> 0" by auto
  have q: "dlnow / dltotal * of_nat intervals = 5"
    using a by (simp add: intervals_def)
  have fl: "\<lfloor>(5::rat) + 1 / 2\<rfloor> = 5" by linarith
  have c: "c_round (dlnow / dltotal * of_nat intervals) = 5"
    unfolding q c_round_def using fl by simp
  have g: "dltotal \<noteq> 0 \<and> dlnow \<noteq> 0" using a n by blast
  show "progress_callback data dltotal dlnow ultotal ulnow w =
        (Inr CURL_PROGRESSFUNC_CONTINUE, OUT_REPL (title data @ ''[.....     ]'') w)"
    unfolding progress_callback_def c by (simp add: g to_unsigned_int_def bar_half)
next
  show "add_progress_meter st ti h = h" by (simp add: add_progress_meter_def)
next
  assume "fst (curl_easy_perform resp (v, h)) = Inr code"
  then obtain v1 h1 where p: "curl_easy_perform resp (v, h) = (Inr code, v1, h1)"
    by (cases "curl_easy_perform resp (v, h)") auto
  from perform_effect [OF p] curl_easy_perform_progress [OF p]
  obtain v2 where e: "perform resp (v, h) = (Inr (code = CURLE_OK), v2, h1\<lparr>res := (res h1)\<lparr>file_p := None\<rparr>\<rparr>)"
    "out v2 = out v1 @ (if is_used (progress_data h) then [OutNewline] else [])
                         @ (if code \<noteq> CURLE_OK then [Err (errbuf h1)] else [])"
    by auto
  show "fst (perform resp (v, h)) = Inr (code = CURLE_OK)" by (simp add: e)
  show "out (fst (snd (perform resp (v, h)))) =
        out (fst (snd (curl_easy_perform resp (v, h))))
          @ (if is_used (progress_data h) then [OutNewline] else [])
          @ (if code \<noteq> CURLE_OK then [Err (errbuf (snd (snd (curl_easy_perform resp (v, h)))))]
             else [])"
    by (simp add: e p)
qed

theorem progress_rendering_witness:
  "progress_callback \<lparr>is_used = True, style = 0, title = ''index ''\<rparr> 2048 1024 0 0 example_world =
     (Inr CURL_PROGRESSFUNC_CONTINUE, example_world\<lparr>out := [OutRepl ''index [.....     ]'']\<rparr>) \<and>
   add_progress_meter 0 ''index '' (snd configured) = snd configured \<and>
   fst (curl_easy_perform ok_response configured) = Inr 0 \<and>
   fst (perform ok_response configured) = Inr True \<and>
   out (fst (snd (perform ok_response configured))) = []"
  using progress_rendering [where dltotal = 2048 and dlnow = 1024 and ultotal = 0 and ulnow = 0
      and data = "\<lparr>is_used = True, style = 0, title = ''index ''\<rparr>" and w = example_world
      and st = 0 and ti = "''index ''" and h = "snd configured" and v = "fst configured"
      and resp = ok_response and code = 0]
  by (simp add: configured_def run_defs OUT_REPL_def)

section \<open>Transfer set\<close>

text \<open>
  The loop ends when libcurl's answers hold a round with no handle left running, or one
  in which the poll fails: with such a round \<^verbatim>\<open>perform_blocking\<close> returns or aborts,
  it does not go on waiting.
\<close>

lemma drain_msgs_in_queue:
  "drain nd q m = (x, m') \<Longrightarrow> msgs_in_queue m' = msgs_in_queue m"
  by (induction q arbitrary: m) (auto split: if_splits)

lemma poll_loop_ends:
  assumes "\<exists>r \<in> set rs. running_handles r = 0 \<or> poll_code r \<noteq> 0"
  shows "poll_loop nd rs m \<noteq> None"
  using assms
proof (induction rs arbitrary: m)
  case Nil
  then show ?case by simp
next
  case (Cons r rs)
  show ?case
  proof (cases "msgs_in_queue m = 0")
    case True
    then show ?thesis by (subst poll_loop.simps) simp
  next
    case False
    let ?m1 = "m\<lparr>msgs_in_queue := running_handles r\<rparr>"
    obtain x m2 where d: "drain nd (messages r) ?m1 = (x, m2)"
      by (cases "drain nd (messages r) ?m1")
    have q: "msgs_in_queue m2 = running_handles r"
      using drain_msgs_in_queue [OF d] by simp
    show ?thesis
    proof (cases "running_handles r = 0 \<or> poll_code r \<noteq> 0")
      case True
      then have "poll_loop nd rs m2 \<noteq> None \<or> poll_code r \<noteq> 0 \<or> running_handles r = 0"
        by blast
      moreover have "running_handles r = 0 \<Longrightarrow> poll_loop nd rs m2 \<noteq> None"
        using q by (subst poll_loop.simps) simp
      ultimately show ?thesis using False d
        by (subst poll_loop.simps) (auto simp: Let_def split: sum.splits)
    next
      case False
      then have "\<exists>r \<in> set rs. running_handles r = 0 \<or> poll_code r \<noteq> 0"
        using Cons.prems by auto
      then have "poll_loop nd rs m2 \<noteq> None" by (rule Cons.IH)
      then show ?thesis using d
        by (subst poll_loop.simps) (auto simp: Let_def split: sum.splits)
    qed
  qed
qed

lemma perform_blocking_returns:
  assumes "\<exists>r \<in> set rs. running_handles r = 0 \<or> poll_code r \<noteq> 0"
  shows "perform_blocking nd rs m \<noteq> None"
  using poll_loop_ends [OF assms, of nd m]
  by (auto simp: perform_blocking_def split: option.splits sum.splits prod.splits)

lemma drain_results:
  "drain nd (map (\<lambda>x. x\<lparr>transfer_result := g (transfer_result x)\<rparr>) q) m = drain nd q m"
  by (induction q arbitrary: m) simp_all

lemma poll_loop_results: "poll_loop nd (map (with_results g) rs) m = poll_loop nd rs m"
proof (induction rs arbitrary: m)
  case Nil
  then show ?case by simp
next
  case (Cons r rs)
  show ?case
    by (subst (1 2) poll_loop.simps)
       (simp add: Let_def with_results_def drain_results Cons.IH del: poll_loop.simps
          split: prod.splits sum.splits)
qed

lemmas multi_defs = perform_blocking_def poll_loop.simps assert_fails_def drain_rounds_def
  error_round_def two_helpers_def add_helper_def MultiDownloadHelper_ctor_def idle_helper_def
  DownloadHelper_ctor_def curl_easy_init_def map_insert_def contains_def erase_def
  curl_multi_add_handle_def curl_multi_remove_handle_def get_helper_count_def Let_def

text \<open>With both helpers completing, the run returns true, whichever way it is built.\<close>

lemma two_helpers_run:
  "perform_blocking nd drain_rounds two_helpers = Some (Inr True, MultiDownloadHelper_ctor 1)"
  by (simp add: multi_defs)

text \<open>
  C3, as stated. \<^verbatim>\<open>curl_multi_poll\<close> reports an error (code 12) and
  \<^verbatim>\<open>perform_blocking\<close> returns true, with the assertions compiled in and without them.
\<close>

theorem perform_blocking_poll_error_counterexample:
  "poll_code error_round \<noteq> 0 \<and>
   perform_blocking False [error_round] (MultiDownloadHelper_ctor 1) =
     Some (Inr True, MultiDownloadHelper_ctor 1) \<and>
   perform_blocking True [error_round] (MultiDownloadHelper_ctor 1) =
     Some (Inr True, MultiDownloadHelper_ctor 1)"
  by (simp add: multi_defs)

text \<open>
  C3, amended. \<^verbatim>\<open>perform_blocking\<close> never returns failure: whenever it returns, it
  returns true. That is so also when the polling primitive reports an error: the loop is
  left at once and, no helper being registered, true is returned. The results of the
  transfers are not read: with any other results the outcome is the same. All of it
  holds with the assertions compiled in and without them.
\<close>

theorem perform_blocking_never_fails:
  "(perform_blocking nd rs m = Some (Inr b, m') \<longrightarrow> b) \<and>
   (msgs_in_queue n \<noteq> 0 \<and> helpers n = [] \<and>
    (if running_handles r \<noteq> 0 then poll_code r else perform_code r) \<noteq> 0 \<longrightarrow>
      perform_blocking nd (r # rest) n = Some (Inr True, n\<lparr>msgs_in_queue := 1\<rparr>)) \<and>
   perform_blocking nd (map (with_results g) rs) m = perform_blocking nd rs m"
proof (intro conjI impI)
  assume "perform_blocking nd rs m = Some (Inr b, m')"
  then show b
    by (auto simp: perform_blocking_def split: option.splits prod.splits sum.splits if_splits)
next
  assume a: "msgs_in_queue n \<noteq> 0 \<and> helpers n = [] \<and>
    (if running_handles r \<noteq> 0 then poll_code r else perform_code r) \<noteq> 0"
  then have "poll_loop nd (r # rest) n = Some (Inr (), n\<lparr>msgs_in_queue := running_handles r\<rparr>)"
    by (subst poll_loop.simps) (simp add: Let_def)
  then show "perform_blocking nd (r # rest) n = Some (Inr True, n\<lparr>msgs_in_queue := 1\<rparr>)"
    using a by (simp add: perform_blocking_def assert_fails_def)
next
  show "perform_blocking nd (map (with_results g) rs) m = perform_blocking nd rs m"
    by (simp add: perform_blocking_def poll_loop_results)
qed

theorem perform_blocking_never_fails_witness:
  "perform_blocking False [error_round] (MultiDownloadHelper_ctor 1) =
     Some (Inr True, MultiDownloadHelper_ctor 1) \<and>
   perform_blocking False drain_rounds two_helpers = Some (Inr True, MultiDownloadHelper_ctor 1) \<and>
   perform_blocking False (map (with_results (\<lambda>c. 0)) drain_rounds) two_helpers =
     Some (Inr True, MultiDownloadHelper_ctor 1)"
  using perform_blocking_never_fails [where nd = False and rs = drain_rounds and m = two_helpers
      and b = True and m' = "MultiDownloadHelper_ctor 1" and n = "MultiDownloadHelper_ctor 1"
      and r = error_round and rest = "[]" and g = "\<lambda>c. 0"]
  by (simp add: two_helpers_run) (simp add: error_round_def MultiDownloadHelper_ctor_def)

text \<open>
  C5. After \<^verbatim>\<open>perform_blocking\<close> has returned the map of helpers is to be empty. The
  run: two helpers are registered and \<^verbatim>\<open>curl_multi_poll\<close> reports an error on the
  first pass. The loop is left by \<^verbatim>\<open>break\<close> with both helpers still in the map. With
  the assertions compiled in, \<^verbatim>\<open>assert(helpers.empty())\<close> fails and the program ends
  there; without them \<^verbatim>\<open>perform_blocking\<close> returns true and
  \<^verbatim>\<open>get_helper_count\<close> is 2.
\<close>

theorem perform_blocking_error_keeps_helpers:
  "get_helper_count two_helpers = 2 \<and>
   poll_code error_round \<noteq> 0 \<and>
   perform_blocking False [error_round] two_helpers = Some (Inl AssertionFailed, two_helpers) \<and>
   perform_blocking True [error_round] two_helpers = Some (Inr True, two_helpers) \<and>
   get_helper_count two_helpers \<noteq> 0"
  by (simp add: multi_defs)

end
